theory Spec2Isabelle
  imports Main "HOL-Library.AList"
begin

section \<open>JSON values and the JavaScript operations applied to them\<close>

text \<open>
  The value \<open>request.json()\<close> yields. The transport only asks a number for its
  \<open>typeof\<close>, its truthiness and its rendering as a string. \<open>JNumber n\<close> is an integer of
  magnitude at most \<open>2^53 - 1\<close>, which renders as its decimal digits; \<open>JDouble s\<close> is any
  other number (one with a fraction, or of a larger magnitude), given by its rendering
  \<open>s\<close>: it is not zero. An object is the list of its own properties in insertion order;
  \<open>JSON.parse\<close> yields distinct keys, and a property is looked up with \<open>map_of\<close>.
\<close>

datatype json =
    JNull
  | JBool bool
  | JNumber int
  | JDouble string
  | JString string
  | JArray "json list"
  | JObject "(string \<times> json) list"

text \<open>A JavaScript value that may be \<open>undefined\<close>: \<open>None\<close> is \<open>undefined\<close>.\<close>

type_synonym js = "json option"

text \<open>
  What a \<open>throw\<close> carries. \<open>Thrown\<close> is a failure raised by a collaborator, given by
  its rendering \<open>String(error)\<close>. The messages of the type errors are those of V8.
\<close>

datatype js_error = TypeError string | SyntaxError string | Thrown string

fun String_error :: "js_error \<Rightarrow> string" where
  "String_error (TypeError m) = ''TypeError: '' @ m"
| "String_error (SyntaxError m) = ''SyntaxError: '' @ m"
| "String_error (Thrown m) = m"

fun truthy :: "js \<Rightarrow> bool" where
  "truthy None = False"
| "truthy (Some JNull) = False"
| "truthy (Some (JBool b)) = b"
| "truthy (Some (JNumber n)) = (n \<noteq> 0)"
| "truthy (Some (JDouble s)) = True"
| "truthy (Some (JString s)) = (s \<noteq> [])"
| "truthy (Some (JArray xs)) = True"
| "truthy (Some (JObject kvs)) = True"

text \<open>\<open>x || null\<close>\<close>

definition or_null :: "js \<Rightarrow> json" where
  "or_null x = (if truthy x then the x else JNull)"

fun typeof :: "js \<Rightarrow> string" where
  "typeof None = ''undefined''"
| "typeof (Some JNull) = ''object''"
| "typeof (Some (JBool b)) = ''boolean''"
| "typeof (Some (JNumber n)) = ''number''"
| "typeof (Some (JDouble s)) = ''number''"
| "typeof (Some (JString s)) = ''string''"
| "typeof (Some (JArray xs)) = ''object''"
| "typeof (Some (JObject kvs)) = ''object''"

text \<open>
  \<open>v.k\<close> for a value that is neither \<open>null\<close> nor \<open>undefined\<close>, and a key \<open>k\<close> that no
  prototype defines (the transport reads \<open>jsonrpc\<close>, \<open>method\<close>, \<open>id\<close>, \<open>params\<close>, \<open>name\<close>,
  \<open>arguments\<close>, \<open>thingToRemember\<close> and \<open>informationToGet\<close>): only an object has it.
\<close>

fun own_prop :: "json \<Rightarrow> string \<Rightarrow> js" where
  "own_prop (JObject kvs) k = map_of kvs k"
| "own_prop v k = None"

text \<open>\<open>v.k\<close> in general: reading a property of \<open>null\<close> or \<open>undefined\<close> throws.\<close>

fun getProp :: "js \<Rightarrow> string \<Rightarrow> js_error + js" where
  "getProp None k =
     Inl (TypeError (''Cannot read properties of undefined (reading '' @ [CHR 0x27] @ k
                     @ [CHR 0x27] @ '')''))"
| "getProp (Some JNull) k =
     Inl (TypeError (''Cannot read properties of null (reading '' @ [CHR 0x27] @ k
                     @ [CHR 0x27] @ '')''))"
| "getProp (Some v) k = Inr (own_prop v k)"

fun digit_char :: "nat \<Rightarrow> char" where
  "digit_char n = char_of (48 + n)"

fun string_of_nat :: "nat \<Rightarrow> string" where
  "string_of_nat n =
     (if n < 10 then [digit_char n] else string_of_nat (n div 10) @ [digit_char (n mod 10)])"

definition string_of_int :: "int \<Rightarrow> string" where
  "string_of_int i = (if i < 0 then CHR ''-'' # string_of_nat (nat (- i)) else string_of_nat (nat i))"

fun join :: "string \<Rightarrow> string list \<Rightarrow> string" where
  "join sep [] = []"
| "join sep [x] = x"
| "join sep (x # y # ys) = x @ sep @ join sep (y # ys)"

text \<open>
  The string conversion of template literals and of \<open>+\<close> with a string. An object is
  converted by its \<open>toString\<close>: the inherited one gives \<open>[object Object]\<close>, but an own
  property of that name, which is never a function in a parsed value, leaves no way to a
  primitive and the conversion throws. An array renders its elements joined by commas,
  \<open>null\<close> elements as the empty string, and throws where an element does.
\<close>

fun ToString :: "json \<Rightarrow> js_error + string"
  and ToString_elements :: "json list \<Rightarrow> js_error + string list" where
  "ToString JNull = Inr ''null''"
| "ToString (JBool b) = Inr (if b then ''true'' else ''false'')"
| "ToString (JNumber n) = Inr (string_of_int n)"
| "ToString (JDouble s) = Inr s"
| "ToString (JString s) = Inr s"
| "ToString (JArray xs) =
     (case ToString_elements xs of Inl e \<Rightarrow> Inl e | Inr ss \<Rightarrow> Inr (join '','' ss))"
| "ToString (JObject kvs) =
     (if map_of kvs ''toString'' \<noteq> None
      then Inl (TypeError ''Cannot convert object to primitive value'')
      else Inr ''[object Object]'')"
| "ToString_elements [] = Inr []"
| "ToString_elements (x # xs) =
     (case (if x = JNull then Inr [] else ToString x) of
        Inl e \<Rightarrow> Inl e
      | Inr s \<Rightarrow> (case ToString_elements xs of Inl e \<Rightarrow> Inl e | Inr ss \<Rightarrow> Inr (s # ss)))"

fun ToString_js :: "js \<Rightarrow> js_error + string" where
  "ToString_js None = Inr ''undefined''"
| "ToString_js (Some v) = ToString v"

text \<open>\<open>hay.includes(needle)\<close>\<close>

fun str_includes :: "string \<Rightarrow> string \<Rightarrow> bool" where
  "str_includes [] needle = (needle = [])"
| "str_includes (c # cs) needle =
     (take (length needle) (c # cs) = needle \<or> str_includes cs needle)"

section \<open>The JSON-RPC envelope, tool results and HTTP responses\<close>

record RpcError =
  code :: int
  message :: string
  data :: "string option"

record ContentBlock =
  type' :: string
  text' :: string

record ToolResult =
  content :: "ContentBlock list"
  isError :: "bool option"

text \<open>The \<open>result\<close> member of a response: a static document or a tool result.\<close>

datatype RpcResult = Document json | ToolOutcome ToolResult

record JsonRpcResponse =
  jsonrpc :: string
  result :: "RpcResult option"
  error :: "RpcError option"
  id' :: json

datatype Body =
    JsonBody JsonRpcResponse
  | SseFrame JsonRpcResponse
  | DocumentBody json
  | SseStream json
  | TextBody string
  | NoBody

record Response =
  status :: nat
  headers :: "(string \<times> string) list"
  resp_body :: Body

section \<open>The handler's collaborators\<close>

text \<open>
  \<open>storeMemory\<close>, \<open>storeMemoryInD1\<close> and \<open>searchMemories\<close> live in \<open>utils/\<close>; each either
  returns or throws. They are parameters of the handler, together with \<open>this.userId\<close>.
  A found memory is its content and the rendering \<open>score.toFixed(4)\<close> of its score.
\<close>

record Handler =
  this_userId :: string
  storeMemory :: "js \<Rightarrow> string \<Rightarrow> js_error + string"
  storeMemoryInD1 :: "js \<Rightarrow> string \<Rightarrow> string \<Rightarrow> js_error + unit"
  searchMemories :: "js \<Rightarrow> string \<Rightarrow> js_error + (string \<times> string) list"

section \<open>StreamableHttpHandler\<close>

definition text_block :: "string \<Rightarrow> ContentBlock" where
  "text_block t = \<lparr>type' = ''text'', text' = t\<rparr>"

text \<open>
  Both tools run in a \<open>try\<close> whose \<open>catch\<close> answers with the failure as text. Besides the
  backend calls, the \<open>try\<close> holds the \<open>console.log\<close> whose template literal converts the
  argument to a string: in \<open>addToMCPMemory\<close> after the two stores, in \<open>searchMCPMemory\<close>
  before the search.
\<close>

definition addToMCPMemory :: "Handler \<Rightarrow> js \<Rightarrow> ToolResult" where
  "addToMCPMemory h thingToRemember =
     (case storeMemory h thingToRemember (this_userId h) of
        Inl e \<Rightarrow>
          \<lparr>content = [text_block (''Failed to remember: '' @ String_error e)],
           isError = Some True\<rparr>
      | Inr memoryId \<Rightarrow>
          (case storeMemoryInD1 h thingToRemember (this_userId h) memoryId of
             Inl e \<Rightarrow>
               \<lparr>content = [text_block (''Failed to remember: '' @ String_error e)],
                isError = Some True\<rparr>
           | Inr _ \<Rightarrow>
               (case ToString_js thingToRemember of
                  Inl e \<Rightarrow>
                    \<lparr>content = [text_block (''Failed to remember: '' @ String_error e)],
                     isError = Some True\<rparr>
                | Inr rendered \<Rightarrow>
                    \<lparr>content = [text_block (''Remembered: '' @ rendered)],
                     isError = None\<rparr>)))"

definition render_memory :: "string \<times> string \<Rightarrow> string" where
  "render_memory m = fst m @ '' (score: '' @ snd m @ '')''"

definition searchMCPMemory :: "Handler \<Rightarrow> js \<Rightarrow> ToolResult" where
  "searchMCPMemory h informationToGet =
     (case ToString_js informationToGet of
        Inl e \<Rightarrow>
          \<lparr>content = [text_block (''Failed to search memories: '' @ String_error e)],
           isError = Some True\<rparr>
      | Inr rendered \<Rightarrow>
          (case searchMemories h informationToGet (this_userId h) of
             Inl e \<Rightarrow>
               \<lparr>content = [text_block (''Failed to search memories: '' @ String_error e)],
                isError = Some True\<rparr>
           | Inr memories \<Rightarrow>
               (if length memories > 0
                then \<lparr>content = [text_block (''Found memories:'' @ [CHR 0x0A]
                                    @ join [CHR 0x0A] (map render_memory memories))],
                      isError = None\<rparr>
                else \<lparr>content = [text_block ''No relevant memories found.''],
                      isError = None\<rparr>)))"

text \<open>
  \<open>handleToolCall\<close> destructures \<open>request.params\<close>, which throws when it is \<open>null\<close> or
  \<open>undefined\<close>, and reads a property of \<open>args\<close>, which throws likewise. In the default
  branch the template literal converts \<open>name\<close> to a string, which throws where \<open>ToString\<close>
  does. \<open>Inl\<close> is the exception leaving the function.
\<close>

definition handleToolCall :: "Handler \<Rightarrow> json \<Rightarrow> js_error + JsonRpcResponse" where
  "handleToolCall h request =
     (let params = own_prop request ''params'' in
      if params = None \<or> params = Some JNull
      then Inl (TypeError (''Cannot destructure property 'name' of 'request.params' as it is ''
                           @ (if params = None then ''undefined'' else ''null'') @ ''.''))
      else
        let name = own_prop (the params) ''name'';
            args = own_prop (the params) ''arguments''
        in if name = Some (JString ''addToMCPMemory'')
           then (case getProp args ''thingToRemember'' of
                   Inl e \<Rightarrow> Inl e
                 | Inr thingToRemember \<Rightarrow>
                     Inr \<lparr>jsonrpc = ''2.0'',
                          result = Some (ToolOutcome (addToMCPMemory h thingToRemember)),
                          error = None,
                          id' = or_null (own_prop request ''id'')\<rparr>)
           else if name = Some (JString ''searchMCPMemory'')
           then (case getProp args ''informationToGet'' of
                   Inl e \<Rightarrow> Inl e
                 | Inr informationToGet \<Rightarrow>
                     Inr \<lparr>jsonrpc = ''2.0'',
                          result = Some (ToolOutcome (searchMCPMemory h informationToGet)),
                          error = None,
                          id' = or_null (own_prop request ''id'')\<rparr>)
           else (case ToString_js name of
                   Inl e \<Rightarrow> Inl e
                 | Inr rendered \<Rightarrow>
                     Inr \<lparr>jsonrpc = ''2.0'',
                          result = None,
                          error = Some \<lparr>code = - 32601,
                                        message = ''Unknown tool: '' @ rendered,
                                        data = None\<rparr>,
                          id' = or_null (own_prop request ''id'')\<rparr>))"

definition str_prop :: "string \<Rightarrow> string \<Rightarrow> string \<times> json" where
  "str_prop k v = (k, JString v)"

definition tools_catalogue :: json where
  "tools_catalogue =
     JObject [(''tools'', JArray [
       JObject [str_prop ''name'' ''addToMCPMemory'',
                str_prop ''description'' ''Store important user information in persistent memory'',
                (''inputSchema'', JObject [
                   str_prop ''type'' ''object'',
                   (''properties'', JObject [
                      (''thingToRemember'', JObject [
                         str_prop ''type'' ''string'',
                         str_prop ''description'' ''Information to store in memory''])]),
                   (''required'', JArray [JString ''thingToRemember''])])],
       JObject [str_prop ''name'' ''searchMCPMemory'',
                str_prop ''description''
                  ''Search for relevant information in user's persistent memory'',
                (''inputSchema'', JObject [
                   str_prop ''type'' ''object'',
                   (''properties'', JObject [
                      (''informationToGet'', JObject [
                         str_prop ''type'' ''string'',
                         str_prop ''description'' ''Query to search for in memory''])]),
                   (''required'', JArray [JString ''informationToGet''])])]])]"

definition capabilities_document :: json where
  "capabilities_document =
     JObject [str_prop ''protocolVersion'' ''2025-03-26'',
              (''capabilities'', JObject [(''tools'', JObject []), (''resources'', JObject []),
                                          (''prompts'', JObject []), (''logging'', JObject [])]),
              (''serverInfo'', JObject [str_prop ''name'' ''MCP Memory'',
                                        str_prop ''version'' ''1.0.0''])]"

definition handleToolsList :: "json \<Rightarrow> JsonRpcResponse" where
  "handleToolsList request =
     \<lparr>jsonrpc = ''2.0'', result = Some (Document tools_catalogue), error = None,
      id' = or_null (own_prop request ''id'')\<rparr>"

definition handleInitialize :: "json \<Rightarrow> JsonRpcResponse" where
  "handleInitialize request =
     \<lparr>jsonrpc = ''2.0'', result = Some (Document capabilities_document), error = None,
      id' = or_null (own_prop request ''id'')\<rparr>"

text \<open>
  The \<open>catch\<close> of \<open>processJsonRpcRequest\<close> turns whatever a handler throws into the
  Internal error envelope. On \<open>null\<close> (which \<open>isValidJsonRpc\<close> never lets through) the
  \<open>switch\<close> throws and so does \<open>request.id\<close> in the \<open>catch\<close>: the exception leaves.
\<close>

definition processJsonRpcRequest :: "Handler \<Rightarrow> json \<Rightarrow> js_error + JsonRpcResponse" where
  "processJsonRpcRequest h request =
     (case getProp (Some request) ''method'' of
        Inl e \<Rightarrow> Inl e
      | Inr method \<Rightarrow>
          if method = Some (JString ''tools/call'')
          then (case handleToolCall h request of
                  Inr response \<Rightarrow> Inr response
                | Inl e \<Rightarrow>
                    Inr \<lparr>jsonrpc = ''2.0'',
                         result = None,
                         error = Some \<lparr>code = - 32603, message = ''Internal error'',
                                       data = Some (String_error e)\<rparr>,
                         id' = or_null (own_prop request ''id'')\<rparr>)
          else if method = Some (JString ''tools/list'') then Inr (handleToolsList request)
          else if method = Some (JString ''initialize'') then Inr (handleInitialize request)
          else Inr \<lparr>jsonrpc = ''2.0'',
                    result = None,
                    error = Some \<lparr>code = - 32601, message = ''Method not found'',
                                  data = None\<rparr>,
                    id' = or_null (own_prop request ''id'')\<rparr>)"

text \<open>
  \<open>isValidJsonRpc\<close>: the conjunction stops at a falsy \<open>body\<close>, so the properties are
  only read from a value that has them.
\<close>

definition isValidJsonRpc :: "json \<Rightarrow> bool" where
  "isValidJsonRpc body =
     (truthy (Some body) \<and>
      own_prop body ''jsonrpc'' = Some (JString ''2.0'') \<and>
      typeof (own_prop body ''method'') = ''string'' \<and>
      (own_prop body ''id'' = None \<or> typeof (own_prop body ''id'') = ''string'' \<or>
       typeof (own_prop body ''id'') = ''number'' \<or> own_prop body ''id'' = Some JNull))"

definition shouldUseSSE :: "json \<Rightarrow> JsonRpcResponse \<Rightarrow> bool" where
  "shouldUseSSE request response = False"

text \<open>\<open>headers.set(name, value)\<close>\<close>

definition headers_set :: "string \<Rightarrow> string \<Rightarrow> (string \<times> string) list \<Rightarrow> (string \<times> string) list" where
  "headers_set name v hs = AList.update name v hs"

definition addCorsHeaders :: "(string \<times> string) list \<Rightarrow> (string \<times> string) list" where
  "addCorsHeaders hs =
     headers_set ''Access-Control-Expose-Headers'' ''Mcp-Session-Id''
       (headers_set ''Access-Control-Allow-Headers''
          ''Content-Type, Accept, Mcp-Session-Id, Last-Event-ID''
          (headers_set ''Access-Control-Allow-Methods'' ''GET, POST, OPTIONS''
             (headers_set ''Access-Control-Allow-Origin'' ''*'' hs)))"

definition createJsonResponse :: "JsonRpcResponse \<Rightarrow> string \<Rightarrow> Response" where
  "createJsonResponse res sessionId =
     \<lparr>status = 202,
      headers = addCorsHeaders [(''Content-Type'', ''application/json''),
                                (''Mcp-Session-Id'', sessionId)],
      resp_body = JsonBody res\<rparr>"

definition createSSEResponse :: "JsonRpcResponse \<Rightarrow> string \<Rightarrow> Response" where
  "createSSEResponse res sessionId =
     \<lparr>status = 200,
      headers = addCorsHeaders [(''Content-Type'', ''text/event-stream''),
                                (''Cache-Control'', ''no-cache''),
                                (''Connection'', ''keep-alive''),
                                (''Mcp-Session-Id'', sessionId)],
      resp_body = SseFrame res\<rparr>"

definition createSSEStream :: "string \<Rightarrow> Response" where
  "createSSEStream sessionId =
     \<lparr>status = 200,
      headers = addCorsHeaders [(''Content-Type'', ''text/event-stream''),
                                (''Cache-Control'', ''no-cache''),
                                (''Connection'', ''keep-alive''),
                                (''Mcp-Session-Id'', sessionId)],
      resp_body = SseStream (JObject [str_prop ''jsonrpc'' ''2.0'',
                                 str_prop ''method'' ''notifications/initialized'',
                                 (''params'', JObject [str_prop ''sessionId'' sessionId])])\<rparr>"

definition createCapabilitiesResponse :: "string \<Rightarrow> Response" where
  "createCapabilitiesResponse sessionId =
     \<lparr>status = 200,
      headers = addCorsHeaders [(''Content-Type'', ''application/json''),
                                (''Mcp-Session-Id'', sessionId)],
      resp_body = DocumentBody capabilities_document\<rparr>"

definition createErrorResponse :: "RpcError \<Rightarrow> json \<Rightarrow> string \<Rightarrow> Response" where
  "createErrorResponse err i sessionId =
     \<lparr>status = 400,
      headers = addCorsHeaders [(''Content-Type'', ''application/json''),
                                (''Mcp-Session-Id'', sessionId)],
      resp_body = JsonBody \<lparr>jsonrpc = ''2.0'', result = None, error = Some err, id' = i\<rparr>\<rparr>"

definition createCorsResponse :: Response where
  "createCorsResponse =
     \<lparr>status = 204,
      headers = headers_set ''Access-Control-Allow-Headers''
                  ''Content-Type, Accept, Mcp-Session-Id, Last-Event-ID''
                  (headers_set ''Access-Control-Allow-Methods'' ''GET, POST, OPTIONS''
                     (addCorsHeaders [])),
      resp_body = NoBody\<rparr>"

text \<open>
  What the handler reads of an HTTP request: the method, the two headers
  (\<open>headers.get\<close> gives \<open>null\<close>, here \<open>None\<close>, for a header that is not there), whether the
  URL has the \<open>capabilities\<close> parameter, and what \<open>request.json()\<close> does with the body:
  it returns the parsed value or throws.
\<close>

record Request =
  http_method :: string
  mcp_session_id :: "string option"
  accept :: "string option"
  has_capabilities :: bool
  json_body :: "js_error + json"

definition parse_error :: RpcError where
  "parse_error = \<lparr>code = - 32700, message = ''Parse error'', data = None\<rparr>"

definition invalid_request :: RpcError where
  "invalid_request = \<lparr>code = - 32600, message = ''Invalid Request'', data = None\<rparr>"

text \<open>
  \<open>handlePost\<close>. The second component of the outcome counts the calls of
  \<open>processJsonRpcRequest\<close> made while the request is served. Everything thrown inside
  the \<open>try\<close> ends in the Parse error response.
\<close>

definition handlePost :: "Handler \<Rightarrow> Request \<Rightarrow> string \<Rightarrow> Response \<times> nat" where
  "handlePost h request sessionId =
     (let acceptHeader = (case accept request of None \<Rightarrow> [] | Some a \<Rightarrow> a);
          supportsJson = str_includes acceptHeader ''application/json'';
          supportsSSE = str_includes acceptHeader ''text/event-stream''
      in case json_body request of
           Inl e \<Rightarrow> (createErrorResponse parse_error JNull sessionId, 0)
         | Inr body \<Rightarrow>
             if \<not> isValidJsonRpc body
             then (case getProp (Some body) ''id'' of
                     Inl e \<Rightarrow> (createErrorResponse parse_error JNull sessionId, 0)
                   | Inr i \<Rightarrow> (createErrorResponse invalid_request (or_null i) sessionId, 0))
             else (case processJsonRpcRequest h body of
                     Inl e \<Rightarrow> (createErrorResponse parse_error JNull sessionId, 1)
                   | Inr res \<Rightarrow>
                       if supportsSSE \<and> shouldUseSSE body res
                       then (createSSEResponse res sessionId, 1)
                       else if supportsJson then (createJsonResponse res sessionId, 1)
                       else (createJsonResponse res sessionId, 1)))"

definition handleGet :: "Request \<Rightarrow> string \<Rightarrow> Response" where
  "handleGet request sessionId =
     (if has_capabilities request then createCapabilitiesResponse sessionId
      else createSSEStream sessionId)"

section \<open>SessionManager\<close>

record SessionData =
  sid :: string
  userId :: "string option"
  createdAt :: int
  lastActivity :: int
  metadata :: json

text \<open>
  The decoded body of a request to the session manager. \<open>sessionId\<close> is a string, as in
  every request the transport sends; \<open>userId\<close> and \<open>metadata\<close> may be missing. (A body
  that does not decode, or a storage call that fails, ends in the \<open>catch\<close> of \<open>fetch\<close> with
  status 500; the operations below start from a decoded body and a storage that answers.)
\<close>

record SmBody =
  req_sessionId :: string
  req_userId :: "string option"
  req_metadata :: js

record SmRequest =
  sm_method :: string
  sm_path :: string
  sm_body :: SmBody

datatype SmPayload =
    SessionJson SessionData
  | CleanupJson nat nat
  | Text string

record SmResponse =
  sm_status :: nat
  sm_payload :: SmPayload

definition ok :: "SmResponse \<Rightarrow> bool" where
  "ok r = (200 \<le> sm_status r \<and> sm_status r \<le> 299)"

text \<open>
  The durable object's state: \<open>ctx.storage\<close> as the list of its entries, and the number
  of \<open>Date.now()\<close> calls made so far. The clock is a parameter \<open>clk\<close>: the \<open>n\<close>-th call of
  \<open>Date.now()\<close> returns \<open>clk n\<close>, in milliseconds. Nothing is assumed of it.
\<close>

record DOState =
  storage :: "(string \<times> SessionData) list"
  ticks :: nat

definition Date_now :: "(nat \<Rightarrow> int) \<Rightarrow> DOState \<Rightarrow> int \<times> DOState" where
  "Date_now clk st = (clk (ticks st), st\<lparr>ticks := Suc (ticks st)\<rparr>)"

definition storage_put :: "string \<Rightarrow> SessionData \<Rightarrow> DOState \<Rightarrow> DOState" where
  "storage_put k v st = st\<lparr>storage := AList.update k v (storage st)\<rparr>"

definition storage_get :: "string \<Rightarrow> DOState \<Rightarrow> SessionData option" where
  "storage_get k st = map_of (storage st) k"

definition storage_delete :: "string \<Rightarrow> DOState \<Rightarrow> DOState" where
  "storage_delete k st = st\<lparr>storage := AList.delete k (storage st)\<rparr>"

text \<open>
  The own enumerable properties an object spread copies: those of an object, the indexed
  elements of an array, the indexed characters of a string, none of anything else.
\<close>

fun own_props :: "json \<Rightarrow> (string \<times> json) list" where
  "own_props (JObject kvs) = kvs"
| "own_props (JArray xs) = zip (map string_of_nat [0..<length xs]) xs"
| "own_props (JString s) = zip (map string_of_nat [0..<length s]) (map (\<lambda>c. JString [c]) s)"
| "own_props v = []"

text \<open>\<open>{ ...a, ...b }\<close>: the properties of \<open>a\<close>, each property of \<open>b\<close> then set in turn.\<close>

definition spread :: "json \<Rightarrow> json \<Rightarrow> json" where
  "spread a b = JObject (foldl (\<lambda>acc kv. AList.update (fst kv) (snd kv) acc) (own_props a) (own_props b))"

definition createSession :: "(nat \<Rightarrow> int) \<Rightarrow> SmBody \<Rightarrow> DOState \<Rightarrow> SmResponse \<times> DOState" where
  "createSession clk b st =
     (let (t1, st1) = Date_now clk st;
          (t2, st2) = Date_now clk st1;
          sessionData = \<lparr>sid = req_sessionId b,
                         userId = req_userId b,
                         createdAt = t1,
                         lastActivity = t2,
                         metadata = (case req_metadata b of None \<Rightarrow> JObject [] | Some m \<Rightarrow> m)\<rparr>
      in (\<lparr>sm_status = 200, sm_payload = SessionJson sessionData\<rparr>,
          storage_put (req_sessionId b) sessionData st2))"

definition not_found :: SmResponse where
  "not_found = \<lparr>sm_status = 404, sm_payload = Text ''Session not found''\<rparr>"

definition updateSession :: "(nat \<Rightarrow> int) \<Rightarrow> SmBody \<Rightarrow> DOState \<Rightarrow> SmResponse \<times> DOState" where
  "updateSession clk b st =
     (case storage_get (req_sessionId b) st of
        None \<Rightarrow> (not_found, st)
      | Some session \<Rightarrow>
          (let (now, st1) = Date_now clk st;
               session1 = session\<lparr>lastActivity := now\<rparr>;
               session2 = (if truthy (req_metadata b)
                           then session1\<lparr>metadata := spread (metadata session1) (the (req_metadata b))\<rparr>
                           else session1)
           in (\<lparr>sm_status = 200, sm_payload = SessionJson session2\<rparr>,
               storage_put (req_sessionId b) session2 st1)))"

definition getSession :: "(nat \<Rightarrow> int) \<Rightarrow> SmBody \<Rightarrow> DOState \<Rightarrow> SmResponse \<times> DOState" where
  "getSession clk b st =
     (case storage_get (req_sessionId b) st of
        None \<Rightarrow> (not_found, st)
      | Some session \<Rightarrow>
          (let (now, st1) = Date_now clk st;
               session1 = session\<lparr>lastActivity := now\<rparr>
           in (\<lparr>sm_status = 200, sm_payload = SessionJson session1\<rparr>,
               storage_put (req_sessionId b) session1 st1)))"


text \<open>
  The loop of \<open>cleanupSessions\<close> over the entries \<open>storage.list()\<close> returned, carrying the
  storage and the two counters.
\<close>

fun sweep :: "int \<Rightarrow> int \<Rightarrow> (string \<times> SessionData) list \<Rightarrow> DOState \<times> nat \<times> nat
              \<Rightarrow> DOState \<times> nat \<times> nat" where
  "sweep now maxAge [] acc = acc"
| "sweep now maxAge ((sessionId, session) # rest) (st, cleanedCount, activeSessions) =
     (if now - lastActivity session > maxAge
      then sweep now maxAge rest (storage_delete sessionId st, cleanedCount + 1, activeSessions)
      else sweep now maxAge rest (st, cleanedCount, activeSessions + 1))"

definition cleanupSessions :: "(nat \<Rightarrow> int) \<Rightarrow> DOState \<Rightarrow> SmResponse \<times> DOState" where
  "cleanupSessions clk st =
     (let (now, st1) = Date_now clk st;
          maxAge = 24 * 60 * 60 * 1000;
          sessions = storage st1;
          (st2, cleanedCount, activeSessions) = sweep now maxAge sessions (st1, 0, 0)
      in (\<lparr>sm_status = 200, sm_payload = CleanupJson cleanedCount activeSessions\<rparr>, st2))"


section \<open>Session resolution\<close>

text \<open>
  \<open>getOrCreateSession\<close> talks to the session manager through a stub whose \<open>fetch\<close> may
  throw (the store cannot be reached) or return any response. The stub is the parameter
  \<open>stub\<close>, acting on a state \<open>'w\<close> of its own; \<open>uuid\<close> is what \<open>uuidv4()\<close> returns.
\<close>

definition get_request :: "string \<Rightarrow> SmRequest" where
  "get_request sessionHeader =
     \<lparr>sm_method = ''POST'', sm_path = ''/get'',
      sm_body = \<lparr>req_sessionId = sessionHeader, req_userId = None, req_metadata = None\<rparr>\<rparr>"

definition create_request :: "string \<Rightarrow> string \<Rightarrow> SmRequest" where
  "create_request sessionId u =
     \<lparr>sm_method = ''POST'', sm_path = ''/create'',
      sm_body = \<lparr>req_sessionId = sessionId, req_userId = Some u,
                 req_metadata = Some (JObject [])\<rparr>\<rparr>"

definition lookup :: "(SmRequest \<Rightarrow> 'w \<Rightarrow> (js_error + SmResponse) \<times> 'w) \<Rightarrow> string option \<Rightarrow> 'w
                      \<Rightarrow> bool \<times> 'w" where
  "lookup stub sessionHeader w =
     (case sessionHeader of
        None \<Rightarrow> (False, w)
      | Some presented \<Rightarrow>
          if presented = [] then (False, w)
          else (case stub (get_request presented) w of
                  (Inr response, w1) \<Rightarrow> (ok response, w1)
                | (Inl e, w1) \<Rightarrow> (False, w1)))"

definition getOrCreateSession ::
  "(SmRequest \<Rightarrow> 'w \<Rightarrow> (js_error + SmResponse) \<times> 'w) \<Rightarrow> string \<Rightarrow> string \<Rightarrow> string option \<Rightarrow> 'w
   \<Rightarrow> string \<times> 'w" where
  "getOrCreateSession stub u uuid sessionHeader w =
     (let (found, w1) = lookup stub sessionHeader w
      in if found then (the sessionHeader, w1)
         else (let sessionId = uuid;
                   (r, w2) = stub (create_request sessionId u) w1
               in (sessionId, w2)))"



definition handleRequest ::
  "(SmRequest \<Rightarrow> 'w \<Rightarrow> (js_error + SmResponse) \<times> 'w) \<Rightarrow> Handler \<Rightarrow> string \<Rightarrow> Request \<Rightarrow> 'w
   \<Rightarrow> (Response \<times> nat) \<times> 'w" where
  "handleRequest stub h uuid request w =
     (if http_method request = ''OPTIONS'' then ((createCorsResponse, 0), w)
      else
        let (sessionId, w1) = getOrCreateSession stub (this_userId h) uuid (mcp_session_id request) w
        in if http_method request = ''POST'' then (handlePost h request sessionId, w1)
           else if http_method request = ''GET'' then ((handleGet request sessionId, 0), w1)
           else ((\<lparr>status = 405, headers = [], resp_body = TextBody ''Method not allowed''\<rparr>, 0), w1))"

section \<open>Concrete handlers, requests, clocks and stores\<close>

text \<open>
  A backend whose every call throws, and one whose every call succeeds.
\<close>

definition failing_backend :: Handler where
  "failing_backend =
     \<lparr>this_userId = ''alice'',
      storeMemory = (\<lambda>t u. Inl (Thrown ''Error: Vectorize unavailable'')),
      storeMemoryInD1 = (\<lambda>t u m. Inl (Thrown ''Error: D1 unavailable'')),
      searchMemories = (\<lambda>q u. Inl (Thrown ''Error: Vectorize unavailable''))\<rparr>"

definition working_backend :: Handler where
  "working_backend =
     \<lparr>this_userId = ''alice'',
      storeMemory = (\<lambda>t u. Inr ''memory-1''),
      storeMemoryInD1 = (\<lambda>t u m. Inr ()),
      searchMemories = (\<lambda>q u. Inr [(''likes tea'', ''0.9134'')])\<rparr>"

text \<open>
  A request object with the protocol tag, a method and further members; a POST carrying
  an \<open>Accept\<close> header and a body; a \<open>tools/call\<close> request for a tool and its arguments.
\<close>

definition envelope :: "string \<Rightarrow> (string \<times> json) list \<Rightarrow> json" where
  "envelope m rest = JObject ([(''jsonrpc'', JString ''2.0''), (''method'', JString m)] @ rest)"

definition post :: "string option \<Rightarrow> js_error + json \<Rightarrow> Request" where
  "post a b = \<lparr>http_method = ''POST'', mcp_session_id = None, accept = a,
               has_capabilities = False, json_body = b\<rparr>"

definition tool_call :: "string \<Rightarrow> json \<Rightarrow> json" where
  "tool_call n a =
     envelope ''tools/call''
       [(''params'', JObject [(''name'', JString n), (''arguments'', a)]), (''id'', JNumber 3)]"

text \<open>
  A clock that stands still, and one that advances by a millisecond at every reading.
\<close>

definition frozen_clock :: "int \<Rightarrow> nat \<Rightarrow> int" where
  "frozen_clock t n = t"

definition ticking_clock :: "int \<Rightarrow> nat \<Rightarrow> int" where
  "ticking_clock t n = t + int n"

definition empty_store :: DOState where
  "empty_store = \<lparr>storage = [], ticks = 0\<rparr>"

definition session_at :: "string \<Rightarrow> int \<Rightarrow> SessionData" where
  "session_at k t = \<lparr>sid = k, userId = Some ''alice'', createdAt = t, lastActivity = t,
                     metadata = JObject [(''client'', JString ''cursor'')]\<rparr>"

definition create_body :: "string \<Rightarrow> SmBody" where
  "create_body k = \<lparr>req_sessionId = k, req_userId = Some ''alice'', req_metadata = Some (JObject [(''client'', JString ''cursor'')])\<rparr>"

definition patch_body :: "string \<Rightarrow> SmBody" where
  "patch_body k = \<lparr>req_sessionId = k, req_userId = None, req_metadata = Some (JObject [(''theme'', JString ''dark'')])\<rparr>"


text \<open>
  The test of the sweep: the age of the session at the reading \<open>now\<close> is more than
  24 hours.
\<close>

definition exceeds :: "int \<Rightarrow> SessionData \<Rightarrow> bool" where
  "exceeds now session = (now - lastActivity session > 24 * 60 * 60 * 1000)"

section \<open>Facts about the transport\<close>

lemma valid_not_null: "isValidJsonRpc request \<Longrightarrow> getProp (Some request) k = Inr (own_prop request k)"
  by (cases request) (simp_all add: isValidJsonRpc_def)

lemma handleToolCall_shape:
  "handleToolCall h request = Inr r \<Longrightarrow> (result r = None) \<noteq> (error r = None)"
  by (auto simp: handleToolCall_def Let_def split: if_splits sum.splits)

lemma process_returns:
  "isValidJsonRpc b \<Longrightarrow> \<exists>res. processJsonRpcRequest h b = Inr res"
  by (auto simp: processJsonRpcRequest_def valid_not_null split: sum.splits)

lemma invalid_object:
  "isValidJsonRpc (JObject kvs) \<longleftrightarrow>
     \<not> (map_of kvs ''jsonrpc'' \<noteq> Some (JString ''2.0'') \<or>
        typeof (map_of kvs ''method'') \<noteq> ''string'' \<or>
        (map_of kvs ''id'' \<noteq> None \<and> typeof (map_of kvs ''id'') \<noteq> ''string'' \<and>
         typeof (map_of kvs ''id'') \<noteq> ''number'' \<and> map_of kvs ''id'' \<noteq> Some JNull))"
  by (auto simp: isValidJsonRpc_def)

lemma session_header: "map_of (addCorsHeaders [(''Content-Type'', ct), (''Mcp-Session-Id'', sessionId)]) ''Mcp-Session-Id'' = Some sessionId"
  by (simp add: addCorsHeaders_def headers_set_def update_conv')

lemma process_tools_call:
  assumes "isValidJsonRpc request"
    and "own_prop request ''method'' = Some (JString ''tools/call'')"
  shows "processJsonRpcRequest h request =
           Inr (case handleToolCall h request of
                  Inr response \<Rightarrow> response
                | Inl e \<Rightarrow>
                    \<lparr>jsonrpc = ''2.0'', result = None,
                     error = Some \<lparr>code = - 32603, message = ''Internal error'',
                                   data = Some (String_error e)\<rparr>,
                     id' = or_null (own_prop request ''id'')\<rparr>)"
  using assms by (simp add: processJsonRpcRequest_def valid_not_null split: sum.splits)

lemma handleToolCall_error_code:
  "handleToolCall h request = Inr r \<Longrightarrow> error r = Some e \<Longrightarrow> code e = - 32601"
  by (auto simp: handleToolCall_def Let_def split: if_splits sum.splits)

lemma handleToolCall_no_params:
  "own_prop request ''params'' = None \<or> own_prop request ''params'' = Some JNull \<Longrightarrow>
   handleToolCall h request =
     Inl (TypeError (''Cannot destructure property 'name' of 'request.params' as it is ''
                     @ (if own_prop request ''params'' = None then ''undefined'' else ''null'')
                     @ ''.''))"
  by (auto simp: handleToolCall_def)

lemma handleToolCall_no_arguments:
  "own_prop request ''params'' = Some params \<Longrightarrow> params \<noteq> JNull \<Longrightarrow>
   own_prop params ''name'' = Some (JString ''addToMCPMemory'') \<and>
   getProp (own_prop params ''arguments'') ''thingToRemember'' = Inl e \<or>
   own_prop params ''name'' = Some (JString ''searchMCPMemory'') \<and>
   getProp (own_prop params ''arguments'') ''informationToGet'' = Inl e \<Longrightarrow>
   handleToolCall h request = Inl e"
  by (auto simp: handleToolCall_def)

lemma handleToolCall_unknown_tool:
  "own_prop request ''params'' = Some params \<Longrightarrow> params \<noteq> JNull \<Longrightarrow>
   own_prop params ''name'' \<noteq> Some (JString ''addToMCPMemory'') \<Longrightarrow>
   own_prop params ''name'' \<noteq> Some (JString ''searchMCPMemory'') \<Longrightarrow>
   handleToolCall h request =
     (case ToString_js (own_prop params ''name'') of
        Inl e \<Rightarrow> Inl e
      | Inr rendered \<Rightarrow>
          Inr \<lparr>jsonrpc = ''2.0'', result = None,
               error = Some \<lparr>code = - 32601, message = ''Unknown tool: '' @ rendered,
                             data = None\<rparr>,
               id' = or_null (own_prop request ''id'')\<rparr>)"
  by (simp add: handleToolCall_def)

section \<open>Facts about the session manager\<close>

lemma filter_delete:
  "filter (\<lambda>kv. fst kv \<notin> A) (AList.delete k S) = filter (\<lambda>kv. fst kv \<notin> insert k A) S"
  by (induction S) auto

lemma sweep_result:
  "sweep now m xs (st, c, a) =
     (st\<lparr>storage := filter (\<lambda>kv. fst kv \<notin> fst ` set (filter (\<lambda>kv. now - lastActivity (snd kv) > m) xs)) (storage st)\<rparr>,
      c + length (filter (\<lambda>kv. now - lastActivity (snd kv) > m) xs),
      a + length (filter (\<lambda>kv. \<not> now - lastActivity (snd kv) > m) xs))"
proof (induction xs arbitrary: st c a)
  case Nil
  then show ?case by simp
next
  case (Cons x xs)
  obtain k s where x: "x = (k, s)" by (cases x)
  show ?case
  proof (cases "now - lastActivity s > m")
    case True
    with x Cons.IH show ?thesis
      by (simp add: storage_delete_def filter_delete)
  next
    case False
    with x Cons.IH show ?thesis by simp
  qed
qed

lemma distinct_keys_filter:
  assumes "distinct (map fst xs)"
  shows "filter (\<lambda>kv. fst kv \<notin> fst ` set (filter (\<lambda>kv. P (snd kv)) xs)) xs =
         filter (\<lambda>kv. \<not> P (snd kv)) xs"
proof (rule filter_cong [OF refl])
  fix kv assume kv: "kv \<in> set xs"
  show "(fst kv \<notin> fst ` set (filter (\<lambda>kv. P (snd kv)) xs)) = (\<not> P (snd kv))"
  proof
    assume "fst kv \<notin> fst ` set (filter (\<lambda>kv. P (snd kv)) xs)"
    with kv show "\<not> P (snd kv)" by force
  next
    assume n: "\<not> P (snd kv)"
    show "fst kv \<notin> fst ` set (filter (\<lambda>kv. P (snd kv)) xs)"
    proof
      assume "fst kv \<in> fst ` set (filter (\<lambda>kv. P (snd kv)) xs)"
      then obtain kv' where kv': "kv' \<in> set xs" "P (snd kv')" "fst kv' = fst kv" by auto
      from assms kv kv'(1) kv'(3) have "snd kv' = snd kv"
        by (metis eq_key_imp_eq_value prod.collapse)
      with kv'(2) n show False by simp
    qed
  qed
qed

lemma cleanup_result:
  assumes "distinct (map fst (storage st))"
  shows "cleanupSessions clk st =
           (\<lparr>sm_status = 200,
             sm_payload = CleanupJson (length (filter (\<lambda>kv. exceeds (clk (ticks st)) (snd kv)) (storage st)))
                                      (length (filter (\<lambda>kv. \<not> exceeds (clk (ticks st)) (snd kv)) (storage st)))\<rparr>,
            \<lparr>storage = filter (\<lambda>kv. \<not> exceeds (clk (ticks st)) (snd kv)) (storage st),
             ticks = Suc (ticks st)\<rparr>)"
proof -
  have keep: "filter (\<lambda>kv. fst kv \<notin> fst ` set (filter (\<lambda>kv. exceeds (clk (ticks st)) (snd kv)) (storage st)))
                (storage st) =
              filter (\<lambda>kv. \<not> exceeds (clk (ticks st)) (snd kv)) (storage st)"
    by (rule distinct_keys_filter [OF assms])
  have "cleanupSessions clk st =
          (\<lparr>sm_status = 200,
            sm_payload = CleanupJson (length (filter (\<lambda>kv. exceeds (clk (ticks st)) (snd kv)) (storage st)))
                                     (length (filter (\<lambda>kv. \<not> exceeds (clk (ticks st)) (snd kv)) (storage st)))\<rparr>,
           st\<lparr>ticks := Suc (ticks st),
              storage := filter (\<lambda>kv. fst kv \<notin> fst ` set (filter (\<lambda>kv. exceeds (clk (ticks st)) (snd kv)) (storage st)))
                           (storage st)\<rparr>)"
    by (simp add: cleanupSessions_def Date_now_def Let_def sweep_result exceeds_def
             del: set_filter)
  also have "st\<lparr>ticks := Suc (ticks st),
                storage := filter (\<lambda>kv. fst kv \<notin> fst ` set (filter (\<lambda>kv. exceeds (clk (ticks st)) (snd kv)) (storage st)))
                             (storage st)\<rparr> =
             \<lparr>storage = filter (\<lambda>kv. \<not> exceeds (clk (ticks st)) (snd kv)) (storage st),
              ticks = Suc (ticks st)\<rparr>"
    unfolding keep by (cases st) simp
  finally show ?thesis .
qed

lemma lastActivity_session_at: "lastActivity (session_at k t) = t"
  by (simp add: session_at_def)

lemma map_of_foldl_update:
  "k \<notin> fst ` set kvs \<Longrightarrow>
   map_of (foldl (\<lambda>acc kv. AList.update (fst kv) (snd kv) acc) acc kvs) k = map_of acc k"
  by (induction kvs arbitrary: acc) (auto simp: update_conv')

lemma spread_keeps:
  "k \<notin> fst ` set (own_props b) \<Longrightarrow> map_of (own_props (spread a b)) k = map_of (own_props a) k"
  by (simp add: spread_def map_of_foldl_update)

lemma get_put: "storage_get k (storage_put k v st) = Some v"
  by (simp add: storage_get_def storage_put_def update_conv')








section \<open>The claims\<close>

text \<open>
  C1. A valid envelope whose method is \<open>initialize\<close>, \<open>tools/list\<close> or \<open>tools/call\<close>
  is answered by \<open>processJsonRpcRequest\<close> with an envelope in which exactly one of
  \<open>result\<close> and \<open>error\<close> is there, whatever the backend does.
\<close>

theorem C1_exactly_one_of_result_and_error:
  assumes "isValidJsonRpc request"
    and "own_prop request ''method'' = Some (JString ''initialize'') \<or>
         own_prop request ''method'' = Some (JString ''tools/list'') \<or>
         own_prop request ''method'' = Some (JString ''tools/call'')"
  shows "\<exists>r. processJsonRpcRequest h request = Inr r \<and> (result r = None) \<noteq> (error r = None)"
proof (cases "own_prop request ''method'' = Some (JString ''tools/call'')")
  case True
  show ?thesis
  proof (cases "handleToolCall h request")
    case (Inl e)
    with True assms(1) show ?thesis
      by (simp add: processJsonRpcRequest_def valid_not_null)
  next
    case (Inr r)
    with True assms(1) handleToolCall_shape [OF Inr] show ?thesis
      by (simp add: processJsonRpcRequest_def valid_not_null)
  qed
next
  case False
  with assms show ?thesis
    by (auto simp: processJsonRpcRequest_def valid_not_null handleToolsList_def handleInitialize_def)
qed

theorem C1_witness:
  "isValidJsonRpc (envelope ''tools/call'' [(''id'', JNumber 7)]) \<and>
   own_prop (envelope ''tools/call'' [(''id'', JNumber 7)]) ''method'' = Some (JString ''tools/call'') \<and>
   (\<exists>r. processJsonRpcRequest failing_backend (envelope ''tools/call'' [(''id'', JNumber 7)]) = Inr r \<and>
        (result r = None) \<noteq> (error r = None))"
  using C1_exactly_one_of_result_and_error
          [of "envelope ''tools/call'' [(''id'', JNumber 7)]" failing_backend]
  by (simp add: isValidJsonRpc_def envelope_def)

text \<open>
  C2. A \<open>tools/call\<close> of \<open>addToMCPMemory\<close> or \<open>searchMCPMemory\<close> whose backend call
  throws \<open>e\<close> (the backend is called with the property read from \<open>arguments\<close>, once that
  read has succeeded) is answered with a result envelope: a tool result with
  \<open>isError = true\<close> and one text block that explains the failure, and no \<open>error\<close> member.
  The text names \<open>e\<close>; where the query of \<open>searchMCPMemory\<close> cannot be converted to a
  string the search is not reached, and the text names that failure instead.
\<close>

theorem C2_tool_failure_is_a_result:
  assumes "isValidJsonRpc request"
    and "own_prop request ''method'' = Some (JString ''tools/call'')"
    and "own_prop request ''params'' = Some params" and "params \<noteq> JNull"
  shows "(own_prop params ''name'' = Some (JString ''addToMCPMemory'') \<and>
          getProp (own_prop params ''arguments'') ''thingToRemember'' = Inr t \<and>
          (storeMemory h t (this_userId h) = Inl e \<or>
           (\<exists>memoryId. storeMemory h t (this_userId h) = Inr memoryId \<and>
                        storeMemoryInD1 h t (this_userId h) memoryId = Inl e))
          \<longrightarrow> processJsonRpcRequest h request =
                Inr \<lparr>jsonrpc = ''2.0'',
                     result = Some (ToolOutcome
                       \<lparr>content = [\<lparr>type' = ''text'',
                                    text' = ''Failed to remember: '' @ String_error e\<rparr>],
                        isError = Some True\<rparr>),
                     error = None,
                     id' = or_null (own_prop request ''id'')\<rparr>) \<and>
         (own_prop params ''name'' = Some (JString ''searchMCPMemory'') \<and>
          getProp (own_prop params ''arguments'') ''informationToGet'' = Inr q \<and>
          searchMemories h q (this_userId h) = Inl e
          \<longrightarrow> processJsonRpcRequest h request =
                Inr \<lparr>jsonrpc = ''2.0'',
                     result = Some (ToolOutcome
                       \<lparr>content = [\<lparr>type' = ''text'',
                                    text' = ''Failed to search memories: '' @
                                      String_error (case ToString_js q of
                                                      Inl conversion \<Rightarrow> conversion
                                                    | Inr rendered \<Rightarrow> e)\<rparr>],
                        isError = Some True\<rparr>),
                     error = None,
                     id' = or_null (own_prop request ''id'')\<rparr>)"
  using assms
  by (auto simp: processJsonRpcRequest_def valid_not_null handleToolCall_def Let_def
        addToMCPMemory_def searchMCPMemory_def text_block_def split: sum.splits)

theorem C2_witness:
  "isValidJsonRpc (tool_call ''addToMCPMemory'' (JObject [(''thingToRemember'', JString ''tea'')])) \<and>
   storeMemory failing_backend (Some (JString ''tea'')) (this_userId failing_backend)
     = Inl (Thrown ''Error: Vectorize unavailable'') \<and>
   processJsonRpcRequest failing_backend
       (tool_call ''addToMCPMemory'' (JObject [(''thingToRemember'', JString ''tea'')])) =
     Inr \<lparr>jsonrpc = ''2.0'',
          result = Some (ToolOutcome
            \<lparr>content = [\<lparr>type' = ''text'',
                         text' = ''Failed to remember: Error: Vectorize unavailable''\<rparr>],
             isError = Some True\<rparr>),
          error = None, id' = JNumber 3\<rparr> \<and>
   isValidJsonRpc (tool_call ''searchMCPMemory'' (JObject [(''informationToGet'', JString ''tea'')])) \<and>
   searchMemories failing_backend (Some (JString ''tea'')) (this_userId failing_backend)
     = Inl (Thrown ''Error: Vectorize unavailable'') \<and>
   processJsonRpcRequest failing_backend
       (tool_call ''searchMCPMemory'' (JObject [(''informationToGet'', JString ''tea'')])) =
     Inr \<lparr>jsonrpc = ''2.0'',
          result = Some (ToolOutcome
            \<lparr>content = [\<lparr>type' = ''text'',
                         text' = ''Failed to search memories: Error: Vectorize unavailable''\<rparr>],
             isError = Some True\<rparr>),
          error = None, id' = JNumber 3\<rparr>"
  using C2_tool_failure_is_a_result
          [of "tool_call ''addToMCPMemory'' (JObject [(''thingToRemember'', JString ''tea'')])"
              "JObject [(''name'', JString ''addToMCPMemory''),
                        (''arguments'', JObject [(''thingToRemember'', JString ''tea'')])]"
              "Some (JString ''tea'')" failing_backend "Thrown ''Error: Vectorize unavailable''"]
        C2_tool_failure_is_a_result
          [of "tool_call ''searchMCPMemory'' (JObject [(''informationToGet'', JString ''tea'')])"
              "JObject [(''name'', JString ''searchMCPMemory''),
                        (''arguments'', JObject [(''informationToGet'', JString ''tea'')])]"
              _ failing_backend "Thrown ''Error: Vectorize unavailable''" "Some (JString ''tea'')"]
  by (simp add: isValidJsonRpc_def tool_call_def envelope_def failing_backend_def or_null_def)

text \<open>
  C3. A POST whose body parses as an object but has a \<open>jsonrpc\<close> member other than
  \<open>"2.0"\<close>, a \<open>method\<close> that is not a string, or an \<open>id\<close> that is there and is neither
  string, number nor \<open>null\<close>, is answered with the Invalid Request error at status 400,
  with the session header, and \<open>processJsonRpcRequest\<close> is not called.
\<close>

theorem C3_invalid_envelope_is_rejected_before_dispatch:
  assumes "json_body request = Inr (JObject kvs)"
    and "map_of kvs ''jsonrpc'' \<noteq> Some (JString ''2.0'') \<or>
         typeof (map_of kvs ''method'') \<noteq> ''string'' \<or>
         (map_of kvs ''id'' \<noteq> None \<and> typeof (map_of kvs ''id'') \<noteq> ''string'' \<and>
          typeof (map_of kvs ''id'') \<noteq> ''number'' \<and> map_of kvs ''id'' \<noteq> Some JNull)"
  shows "\<exists>r. handlePost h request sessionId = (r, 0) \<and>
             status r = 400 \<and>
             resp_body r = JsonBody \<lparr>jsonrpc = ''2.0'', result = None,
                                     error = Some \<lparr>code = - 32600, message = ''Invalid Request'',
                                                   data = None\<rparr>,
                                     id' = or_null (map_of kvs ''id'')\<rparr> \<and>
             map_of (headers r) ''Mcp-Session-Id'' = Some sessionId"
proof -
  from assms(2) have "\<not> isValidJsonRpc (JObject kvs)"
    by (simp only: invalid_object not_not)
  with assms(1) show ?thesis
    by (simp add: handlePost_def Let_def createErrorResponse_def invalid_request_def session_header)
qed

theorem C3_witness:
  "json_body (post None (Inr (JObject [(''jsonrpc'', JString ''1.0''), (''method'', JString ''initialize''), (''id'', JNumber 5)])))
     = Inr (JObject [(''jsonrpc'', JString ''1.0''), (''method'', JString ''initialize''), (''id'', JNumber 5)]) \<and>
   map_of [(''jsonrpc'', JString ''1.0''), (''method'', JString ''initialize''), (''id'', JNumber 5)] ''jsonrpc''
     \<noteq> Some (JString ''2.0'') \<and>
   (\<exists>r. handlePost working_backend
           (post None (Inr (JObject [(''jsonrpc'', JString ''1.0''), (''method'', JString ''initialize''), (''id'', JNumber 5)])))
           ''session-1'' = (r, 0) \<and>
        status r = 400 \<and>
        resp_body r = JsonBody \<lparr>jsonrpc = ''2.0'', result = None,
                                error = Some \<lparr>code = - 32600, message = ''Invalid Request'',
                                              data = None\<rparr>,
                                id' = JNumber 5\<rparr> \<and>
        map_of (headers r) ''Mcp-Session-Id'' = Some ''session-1'')"
  using C3_invalid_envelope_is_rejected_before_dispatch
          [of "post None (Inr (JObject [(''jsonrpc'', JString ''1.0''), (''method'', JString ''initialize''), (''id'', JNumber 5)]))"
              "[(''jsonrpc'', JString ''1.0''), (''method'', JString ''initialize''), (''id'', JNumber 5)]"
              working_backend "''session-1''"]
  by (simp add: post_def or_null_def)

text \<open>
  C4. A POST whose body passes \<open>isValidJsonRpc\<close> is answered with the dispatcher's
  envelope as one JSON document at status 202, with the session header, whatever the
  \<open>Accept\<close> header is or whether there is one.
\<close>

theorem C4_valid_envelope_is_answered_with_202_json:
  assumes "json_body request = Inr b" and "isValidJsonRpc b"
  shows "\<exists>res. processJsonRpcRequest h b = Inr res \<and>
               handlePost h request sessionId =
                 (\<lparr>status = 202,
                   headers = addCorsHeaders [(''Content-Type'', ''application/json''),
                                             (''Mcp-Session-Id'', sessionId)],
                   resp_body = JsonBody res\<rparr>, 1) \<and>
               map_of (headers (fst (handlePost h request sessionId))) ''Mcp-Session-Id''
                 = Some sessionId \<and>
               map_of (headers (fst (handlePost h request sessionId))) ''Content-Type''
                 = Some ''application/json''"
proof -
  from process_returns [OF assms(2)] obtain res where r: "processJsonRpcRequest h b = Inr res"
    by blast
  have eq: "handlePost h request sessionId = (createJsonResponse res sessionId, 1)"
    using assms r by (simp add: handlePost_def Let_def shouldUseSSE_def)
  have ct: "map_of (addCorsHeaders [(''Content-Type'', ''application/json''), (''Mcp-Session-Id'', sessionId)])
              ''Content-Type'' = Some ''application/json''"
    by (simp add: addCorsHeaders_def headers_set_def update_conv')
  show ?thesis
    using r eq ct by (simp add: createJsonResponse_def session_header)
qed

theorem C4_witness:
  "json_body (post (Some ''text/event-stream'') (Inr (envelope ''initialize'' [(''id'', JString ''1'')])))
     = Inr (envelope ''initialize'' [(''id'', JString ''1'')]) \<and>
   isValidJsonRpc (envelope ''initialize'' [(''id'', JString ''1'')]) \<and>
   handlePost working_backend
       (post (Some ''text/event-stream'') (Inr (envelope ''initialize'' [(''id'', JString ''1'')])))
       ''session-1'' =
     (\<lparr>status = 202,
       headers = addCorsHeaders [(''Content-Type'', ''application/json''),
                                 (''Mcp-Session-Id'', ''session-1'')],
       resp_body = JsonBody \<lparr>jsonrpc = ''2.0'', result = Some (Document capabilities_document),
                              error = None, id' = JString ''1''\<rparr>\<rparr>, 1)"
  using C4_valid_envelope_is_answered_with_202_json
          [of "post (Some ''text/event-stream'') (Inr (envelope ''initialize'' [(''id'', JString ''1'')]))"
              "envelope ''initialize'' [(''id'', JString ''1'')]" working_backend "''session-1''"]
  by (auto simp: post_def envelope_def isValidJsonRpc_def processJsonRpcRequest_def
        handleInitialize_def or_null_def)



text \<open>
  C6. The identifier of a request is echoed through \<open>request.id || null\<close>, which turns
  the identifier \<open>0\<close> into \<open>null\<close>: a request with id \<open>0\<close> for an unknown method gets the
  Method not found error with id \<open>null\<close>.
\<close>

theorem C6_id_zero_is_answered_with_null:
  "handlePost working_backend
     (post (Some ''application/json'') (Inr (envelope ''resources/list'' [(''id'', JNumber 0)])))
     ''session-1'' =
   (\<lparr>status = 202,
     headers = addCorsHeaders [(''Content-Type'', ''application/json''),
                               (''Mcp-Session-Id'', ''session-1'')],
     resp_body = JsonBody \<lparr>jsonrpc = ''2.0'', result = None,
                            error = Some \<lparr>code = - 32601, message = ''Method not found'',
                                          data = None\<rparr>,
                            id' = JNull\<rparr>\<rparr>, 1)"
  by (simp add: handlePost_def post_def envelope_def isValidJsonRpc_def processJsonRpcRequest_def
        or_null_def shouldUseSSE_def createJsonResponse_def)

text \<open>
  C7. A valid \<open>tools/call\<close> request always gets an envelope, and an error in it has the
  code of Internal error or of Method not found, never that of Invalid Request. When
  \<open>params\<close> is missing or \<open>null\<close> the destructuring throws and the error is Internal error,
  with the thrown error as data. When \<open>params\<close> names a known tool and \<open>arguments\<close> is
  missing or \<open>null\<close>, reading the argument throws and the error is Internal error
  likewise. When \<open>params\<close> names no known tool, the error is the Unknown tool error with
  the name converted to a string, and Internal error where that conversion throws.
\<close>

theorem C7_shape_mismatch_is_internal_error_or_unknown_tool:
  assumes "isValidJsonRpc request"
    and "own_prop request ''method'' = Some (JString ''tools/call'')"
  shows "\<exists>r. processJsonRpcRequest h request = Inr r \<and>
             (\<forall>e. error r = Some e \<longrightarrow> code e = - 32603 \<or> code e = - 32601) \<and>
             (own_prop request ''params'' = None \<or> own_prop request ''params'' = Some JNull
                \<longrightarrow> result r = None \<and>
                    error r = Some
                      \<lparr>code = - 32603, message = ''Internal error'',
                       data = Some (String_error (TypeError
                         (''Cannot destructure property 'name' of 'request.params' as it is ''
                          @ (if own_prop request ''params'' = None then ''undefined'' else ''null'')
                          @ ''.'')))\<rparr>) \<and>
             (\<forall>params e. own_prop request ''params'' = Some params \<and> params \<noteq> JNull \<and>
                (own_prop params ''name'' = Some (JString ''addToMCPMemory'') \<and>
                 getProp (own_prop params ''arguments'') ''thingToRemember'' = Inl e \<or>
                 own_prop params ''name'' = Some (JString ''searchMCPMemory'') \<and>
                 getProp (own_prop params ''arguments'') ''informationToGet'' = Inl e)
                \<longrightarrow> result r = None \<and>
                    error r = Some \<lparr>code = - 32603, message = ''Internal error'',
                                    data = Some (String_error e)\<rparr>) \<and>
             (\<forall>params. own_prop request ''params'' = Some params \<and> params \<noteq> JNull \<and>
                own_prop params ''name'' \<noteq> Some (JString ''addToMCPMemory'') \<and>
                own_prop params ''name'' \<noteq> Some (JString ''searchMCPMemory'')
                \<longrightarrow> result r = None \<and>
                    error r = Some
                      (case ToString_js (own_prop params ''name'') of
                         Inr rendered \<Rightarrow>
                           \<lparr>code = - 32601, message = ''Unknown tool: '' @ rendered, data = None\<rparr>
                       | Inl e \<Rightarrow>
                           \<lparr>code = - 32603, message = ''Internal error'',
                            data = Some (String_error e)\<rparr>))"
proof -
  define r where "r = (case handleToolCall h request of
                         Inr response \<Rightarrow> response
                       | Inl e \<Rightarrow>
                           \<lparr>jsonrpc = ''2.0'', result = None,
                            error = Some \<lparr>code = - 32603, message = ''Internal error'',
                                          data = Some (String_error e)\<rparr>,
                            id' = or_null (own_prop request ''id'')\<rparr>)"
  have answer: "processJsonRpcRequest h request = Inr r"
    unfolding r_def by (rule process_tools_call [OF assms])
  have codes: "\<forall>e. error r = Some e \<longrightarrow> code e = - 32603 \<or> code e = - 32601"
  proof (cases "handleToolCall h request")
    case (Inl thrown)
    then show ?thesis by (auto simp: r_def)
  next
    case (Inr response)
    then show ?thesis by (auto simp: r_def dest: handleToolCall_error_code)
  qed
  have no_params: "own_prop request ''params'' = None \<or> own_prop request ''params'' = Some JNull
      \<longrightarrow> result r = None \<and>
          error r = Some
            \<lparr>code = - 32603, message = ''Internal error'',
             data = Some (String_error (TypeError
               (''Cannot destructure property 'name' of 'request.params' as it is ''
                @ (if own_prop request ''params'' = None then ''undefined'' else ''null'')
                @ ''.'')))\<rparr>"
  proof
    assume "own_prop request ''params'' = None \<or> own_prop request ''params'' = Some JNull"
    from handleToolCall_no_params [OF this, of h]
    show "result r = None \<and>
          error r = Some
            \<lparr>code = - 32603, message = ''Internal error'',
             data = Some (String_error (TypeError
               (''Cannot destructure property 'name' of 'request.params' as it is ''
                @ (if own_prop request ''params'' = None then ''undefined'' else ''null'')
                @ ''.'')))\<rparr>"
      by (simp add: r_def)
  qed
  have no_arguments: "\<forall>params e. own_prop request ''params'' = Some params \<and> params \<noteq> JNull \<and>
      (own_prop params ''name'' = Some (JString ''addToMCPMemory'') \<and>
       getProp (own_prop params ''arguments'') ''thingToRemember'' = Inl e \<or>
       own_prop params ''name'' = Some (JString ''searchMCPMemory'') \<and>
       getProp (own_prop params ''arguments'') ''informationToGet'' = Inl e)
      \<longrightarrow> result r = None \<and>
          error r = Some \<lparr>code = - 32603, message = ''Internal error'',
                          data = Some (String_error e)\<rparr>"
  proof (intro allI impI, elim conjE)
    fix params e
    assume "own_prop request ''params'' = Some params" "params \<noteq> JNull"
      "own_prop params ''name'' = Some (JString ''addToMCPMemory'') \<and>
       getProp (own_prop params ''arguments'') ''thingToRemember'' = Inl e \<or>
       own_prop params ''name'' = Some (JString ''searchMCPMemory'') \<and>
       getProp (own_prop params ''arguments'') ''informationToGet'' = Inl e"
    from handleToolCall_no_arguments [OF this, of h]
    show "result r = None \<and>
          error r = Some \<lparr>code = - 32603, message = ''Internal error'',
                          data = Some (String_error e)\<rparr>"
      by (simp add: r_def)
  qed
  have unknown: "\<forall>params. own_prop request ''params'' = Some params \<and> params \<noteq> JNull \<and>
      own_prop params ''name'' \<noteq> Some (JString ''addToMCPMemory'') \<and>
      own_prop params ''name'' \<noteq> Some (JString ''searchMCPMemory'')
      \<longrightarrow> result r = None \<and>
          error r = Some
            (case ToString_js (own_prop params ''name'') of
               Inr rendered \<Rightarrow>
                 \<lparr>code = - 32601, message = ''Unknown tool: '' @ rendered, data = None\<rparr>
             | Inl e \<Rightarrow>
                 \<lparr>code = - 32603, message = ''Internal error'',
                  data = Some (String_error e)\<rparr>)"
  proof (intro allI impI, elim conjE)
    fix params
    assume "own_prop request ''params'' = Some params" "params \<noteq> JNull"
      "own_prop params ''name'' \<noteq> Some (JString ''addToMCPMemory'')"
      "own_prop params ''name'' \<noteq> Some (JString ''searchMCPMemory'')"
    from handleToolCall_unknown_tool [OF this, of h]
    show "result r = None \<and>
          error r = Some
            (case ToString_js (own_prop params ''name'') of
               Inr rendered \<Rightarrow>
                 \<lparr>code = - 32601, message = ''Unknown tool: '' @ rendered, data = None\<rparr>
             | Inl e \<Rightarrow>
                 \<lparr>code = - 32603, message = ''Internal error'',
                  data = Some (String_error e)\<rparr>)"
      by (simp add: r_def split: sum.splits)
  qed
  from answer codes no_params no_arguments unknown show ?thesis
    by blast
qed

theorem C7_witness:
  "isValidJsonRpc (envelope ''tools/call'' [(''params'', JObject [(''arguments'', JObject [])])]) \<and>
   own_prop (envelope ''tools/call'' [(''params'', JObject [(''arguments'', JObject [])])]) ''method''
     = Some (JString ''tools/call'') \<and>
   processJsonRpcRequest working_backend
       (envelope ''tools/call'' [(''params'', JObject [(''arguments'', JObject [])])]) =
     Inr \<lparr>jsonrpc = ''2.0'', result = None,
          error = Some \<lparr>code = - 32601, message = ''Unknown tool: undefined'', data = None\<rparr>,
          id' = JNull\<rparr> \<and>
   isValidJsonRpc (envelope ''tools/call''
       [(''params'', JObject [(''name'', JObject [(''toString'', JNumber 1)]),
                              (''arguments'', JObject [])])]) \<and>
   processJsonRpcRequest working_backend
       (envelope ''tools/call''
          [(''params'', JObject [(''name'', JObject [(''toString'', JNumber 1)]),
                                 (''arguments'', JObject [])])]) =
     Inr \<lparr>jsonrpc = ''2.0'', result = None,
          error = Some \<lparr>code = - 32603, message = ''Internal error'',
                        data = Some ''TypeError: Cannot convert object to primitive value''\<rparr>,
          id' = JNull\<rparr>"
proof -
  let ?nameless = "envelope ''tools/call'' [(''params'', JObject [(''arguments'', JObject [])])]"
  let ?unprintable = "envelope ''tools/call''
          [(''params'', JObject [(''name'', JObject [(''toString'', JNumber 1)]),
                                 (''arguments'', JObject [])])]"
  have valid1: "isValidJsonRpc ?nameless"
    by (simp add: envelope_def isValidJsonRpc_def)
  have method1: "own_prop ?nameless ''method'' = Some (JString ''tools/call'')"
    by (simp add: envelope_def)
  have valid2: "isValidJsonRpc ?unprintable"
    by (simp add: envelope_def isValidJsonRpc_def)
  have method2: "own_prop ?unprintable ''method'' = Some (JString ''tools/call'')"
    by (simp add: envelope_def)
  note nameless = C7_shape_mismatch_is_internal_error_or_unknown_tool
                    [OF valid1 method1, of working_backend]
  note unprintable = C7_shape_mismatch_is_internal_error_or_unknown_tool
                       [OF valid2 method2, of working_backend]
  have run1: "processJsonRpcRequest working_backend ?nameless =
     Inr \<lparr>jsonrpc = ''2.0'', result = None,
          error = Some \<lparr>code = - 32601, message = ''Unknown tool: undefined'', data = None\<rparr>,
          id' = JNull\<rparr>"
    by (simp add: envelope_def or_null_def processJsonRpcRequest_def handleToolCall_def)
  have run2: "processJsonRpcRequest working_backend ?unprintable =
     Inr \<lparr>jsonrpc = ''2.0'', result = None,
          error = Some \<lparr>code = - 32603, message = ''Internal error'',
                        data = Some ''TypeError: Cannot convert object to primitive value''\<rparr>,
          id' = JNull\<rparr>"
    by (simp add: envelope_def or_null_def processJsonRpcRequest_def handleToolCall_def)
  show ?thesis
    by (insert nameless unprintable, intro conjI,
        rule valid1, rule method1, rule run1, rule valid2, rule run2)
qed

text \<open>
  A \<open>tools/call\<close> request without \<open>params\<close> is answered with Internal error.
\<close>

theorem C7_missing_params_counterexample:
  "isValidJsonRpc (envelope ''tools/call'' [(''id'', JNumber 7)]) \<and>
   own_prop (envelope ''tools/call'' [(''id'', JNumber 7)]) ''params'' = None \<and>
   processJsonRpcRequest working_backend (envelope ''tools/call'' [(''id'', JNumber 7)]) =
     Inr \<lparr>jsonrpc = ''2.0'', result = None,
          error = Some \<lparr>code = - 32603, message = ''Internal error'',
                        data = Some ''TypeError: Cannot destructure property 'name' of 'request.params' as it is undefined.''\<rparr>,
          id' = JNumber 7\<rparr> \<and>
   (- 32603 :: int) \<noteq> - 32600"
  by (simp add: envelope_def isValidJsonRpc_def processJsonRpcRequest_def handleToolCall_def
        or_null_def)

text \<open>
  C8. For a stored session, \<open>getSession\<close> and \<open>updateSession\<close> succeed, answer with the
  session they store back under the same key, leave \<open>id\<close>, \<open>userId\<close> and \<open>createdAt\<close> as
  they were, and set \<open>lastActivity\<close> to the reading of the clock at the operation.
  \<open>getSession\<close> leaves the metadata alone; \<open>updateSession\<close> leaves it alone when the patch
  is falsy and otherwise keeps every property the patch does not name.
\<close>

theorem C8_get_and_update_keep_the_session_and_stamp_the_clock:
  assumes "storage_get (req_sessionId b) st = Some session"
  shows "(\<exists>s. fst (getSession clk b st) = \<lparr>sm_status = 200, sm_payload = SessionJson s\<rparr> \<and>
              storage_get (req_sessionId b) (snd (getSession clk b st)) = Some s \<and>
              sid s = sid session \<and> userId s = userId session \<and> createdAt s = createdAt session \<and>
              metadata s = metadata session \<and>
              lastActivity s = clk (ticks st)) \<and>
         (\<exists>s. fst (updateSession clk b st) = \<lparr>sm_status = 200, sm_payload = SessionJson s\<rparr> \<and>
              storage_get (req_sessionId b) (snd (updateSession clk b st)) = Some s \<and>
              sid s = sid session \<and> userId s = userId session \<and> createdAt s = createdAt session \<and>
              (\<not> truthy (req_metadata b) \<longrightarrow> metadata s = metadata session) \<and>
              (truthy (req_metadata b) \<longrightarrow>
                 (\<forall>k. k \<notin> fst ` set (own_props (the (req_metadata b))) \<longrightarrow>
                      map_of (own_props (metadata s)) k = map_of (own_props (metadata session)) k)) \<and>
              lastActivity s = clk (ticks st))"
proof (rule conjI)
  show "\<exists>s. fst (getSession clk b st) = \<lparr>sm_status = 200, sm_payload = SessionJson s\<rparr> \<and>
              storage_get (req_sessionId b) (snd (getSession clk b st)) = Some s \<and>
              sid s = sid session \<and> userId s = userId session \<and> createdAt s = createdAt session \<and>
              metadata s = metadata session \<and>
              lastActivity s = clk (ticks st)"
    using assms by (simp add: getSession_def Date_now_def Let_def get_put)
next
  show "\<exists>s. fst (updateSession clk b st) = \<lparr>sm_status = 200, sm_payload = SessionJson s\<rparr> \<and>
              storage_get (req_sessionId b) (snd (updateSession clk b st)) = Some s \<and>
              sid s = sid session \<and> userId s = userId session \<and> createdAt s = createdAt session \<and>
              (\<not> truthy (req_metadata b) \<longrightarrow> metadata s = metadata session) \<and>
              (truthy (req_metadata b) \<longrightarrow>
                 (\<forall>k. k \<notin> fst ` set (own_props (the (req_metadata b))) \<longrightarrow>
                      map_of (own_props (metadata s)) k = map_of (own_props (metadata session)) k)) \<and>
              lastActivity s = clk (ticks st)"
    using assms by (simp add: updateSession_def Date_now_def Let_def get_put spread_keeps)
qed

theorem C8_witness:
  "storage_get (req_sessionId (patch_body ''s1'')) \<lparr>storage = [(''s1'', session_at ''s1'' 1000)], ticks = 2\<rparr>
     = Some (session_at ''s1'' 1000) \<and>
   updateSession (ticking_clock 1000) (patch_body ''s1'')
       \<lparr>storage = [(''s1'', session_at ''s1'' 1000)], ticks = 2\<rparr> =
     (\<lparr>sm_status = 200,
       sm_payload = SessionJson \<lparr>sid = ''s1'', userId = Some ''alice'', createdAt = 1000,
                                 lastActivity = 1002,
                                 metadata = JObject [(''client'', JString ''cursor''),
                                                     (''theme'', JString ''dark'')]\<rparr>\<rparr>,
      \<lparr>storage = [(''s1'', \<lparr>sid = ''s1'', userId = Some ''alice'', createdAt = 1000,
                              lastActivity = 1002,
                              metadata = JObject [(''client'', JString ''cursor''),
                                                  (''theme'', JString ''dark'')]\<rparr>)],
       ticks = 3\<rparr>)"
proof -
  have stored: "storage_get (req_sessionId (patch_body ''s1''))
                  \<lparr>storage = [(''s1'', session_at ''s1'' 1000)], ticks = 2\<rparr>
                = Some (session_at ''s1'' 1000)"
    by (simp add: storage_get_def patch_body_def)
  note kept = C8_get_and_update_keep_the_session_and_stamp_the_clock
                [OF stored, of "ticking_clock 1000"]
  have run: "updateSession (ticking_clock 1000) (patch_body ''s1'')
       \<lparr>storage = [(''s1'', session_at ''s1'' 1000)], ticks = 2\<rparr> =
     (\<lparr>sm_status = 200,
       sm_payload = SessionJson \<lparr>sid = ''s1'', userId = Some ''alice'', createdAt = 1000,
                                 lastActivity = 1002,
                                 metadata = JObject [(''client'', JString ''cursor''),
                                                     (''theme'', JString ''dark'')]\<rparr>\<rparr>,
      \<lparr>storage = [(''s1'', \<lparr>sid = ''s1'', userId = Some ''alice'', createdAt = 1000,
                              lastActivity = 1002,
                              metadata = JObject [(''client'', JString ''cursor''),
                                                  (''theme'', JString ''dark'')]\<rparr>)],
       ticks = 3\<rparr>)"
    by (simp add: updateSession_def Date_now_def Let_def ticking_clock_def patch_body_def
          session_at_def storage_put_def storage_get_def spread_def)
  show ?thesis
    by (insert kept, intro conjI, rule stored, rule run)
qed

text \<open>
  The last activity is not strictly greater than at creation when the clock has not
  advanced: a session created and read within one millisecond keeps its last activity.
\<close>

theorem C8_same_millisecond_counterexample:
  "createSession (frozen_clock 1000) (create_body ''s1'') empty_store =
     (\<lparr>sm_status = 200, sm_payload = SessionJson (session_at ''s1'' 1000)\<rparr>,
      \<lparr>storage = [(''s1'', session_at ''s1'' 1000)], ticks = 2\<rparr>) \<and>
   getSession (frozen_clock 1000) (create_body ''s1'')
       \<lparr>storage = [(''s1'', session_at ''s1'' 1000)], ticks = 2\<rparr> =
     (\<lparr>sm_status = 200, sm_payload = SessionJson (session_at ''s1'' 1000)\<rparr>,
      \<lparr>storage = [(''s1'', session_at ''s1'' 1000)], ticks = 3\<rparr>) \<and>
   \<not> lastActivity (session_at ''s1'' 1000) > lastActivity (session_at ''s1'' 1000)"
  by (simp add: createSession_def getSession_def Date_now_def Let_def frozen_clock_def create_body_def
        empty_store_def session_at_def storage_put_def storage_get_def)

text \<open>
  C9. On a storage with distinct keys, \<open>cleanupSessions\<close> removes exactly the sessions
  whose age at its clock reading exceeds 24 hours and reports how many it removed and how
  many remain. A second run right after is a no-op, removing nothing and reporting the
  same remaining count, provided that no remaining session is older than 24 hours at the
  second run's clock reading; that is so when the second reading is not later than the
  first.
\<close>

theorem C9_sweep_removes_the_expired_and_repeats_as_a_no_op:
  assumes "distinct (map fst (storage st))"
  shows "cleanupSessions clk st =
           (\<lparr>sm_status = 200,
             sm_payload = CleanupJson (length (filter (\<lambda>kv. exceeds (clk (ticks st)) (snd kv)) (storage st)))
                                      (length (filter (\<lambda>kv. \<not> exceeds (clk (ticks st)) (snd kv)) (storage st)))\<rparr>,
            \<lparr>storage = filter (\<lambda>kv. \<not> exceeds (clk (ticks st)) (snd kv)) (storage st),
             ticks = Suc (ticks st)\<rparr>) \<and>
         ((\<forall>kv \<in> set (storage (snd (cleanupSessions clk st))). \<not> exceeds (clk (Suc (ticks st))) (snd kv))
          \<longrightarrow> cleanupSessions clk (snd (cleanupSessions clk st)) =
                (\<lparr>sm_status = 200,
                  sm_payload = CleanupJson 0 (length (storage (snd (cleanupSessions clk st))))\<rparr>,
                 \<lparr>storage = storage (snd (cleanupSessions clk st)), ticks = Suc (Suc (ticks st))\<rparr>)) \<and>
         (clk (Suc (ticks st)) \<le> clk (ticks st)
          \<longrightarrow> (\<forall>kv \<in> set (storage (snd (cleanupSessions clk st))). \<not> exceeds (clk (Suc (ticks st))) (snd kv)))"
proof -
  define kept where "kept = filter (\<lambda>kv. \<not> exceeds (clk (ticks st)) (snd kv)) (storage st)"
  define st1 where "st1 = \<lparr>storage = kept, ticks = Suc (ticks st)\<rparr>"
  have first: "cleanupSessions clk st =
           (\<lparr>sm_status = 200,
             sm_payload = CleanupJson (length (filter (\<lambda>kv. exceeds (clk (ticks st)) (snd kv)) (storage st)))
                                      (length kept)\<rparr>, st1)"
    unfolding st1_def kept_def by (rule cleanup_result [OF assms])
  have st1: "snd (cleanupSessions clk st) = st1" "storage st1 = kept" "ticks st1 = Suc (ticks st)"
    by (simp_all add: first st1_def)
  have d1: "distinct (map fst (storage st1))"
    using assms by (simp add: st1 kept_def distinct_map_filter)
  note second = cleanup_result [OF d1, of clk, unfolded st1(2,3)]
  have noop: "cleanupSessions clk st1 =
                (\<lparr>sm_status = 200, sm_payload = CleanupJson 0 (length kept)\<rparr>,
                 \<lparr>storage = kept, ticks = Suc (Suc (ticks st))\<rparr>)"
    if "\<forall>kv \<in> set kept. \<not> exceeds (clk (Suc (ticks st))) (snd kv)"
  proof -
    from that have "filter (\<lambda>kv. \<not> exceeds (clk (Suc (ticks st))) (snd kv)) kept = kept"
      by (simp add: filter_id_conv)
    moreover from that have "filter (\<lambda>kv. exceeds (clk (Suc (ticks st))) (snd kv)) kept = []"
      by (simp add: filter_empty_conv)
    ultimately show ?thesis using second by simp
  qed
  have mono: "\<forall>kv \<in> set kept. \<not> exceeds (clk (Suc (ticks st))) (snd kv)"
    if "clk (Suc (ticks st)) \<le> clk (ticks st)"
    using that by (auto simp: kept_def exceeds_def)
  show ?thesis
    unfolding st1(1)
  proof (intro conjI impI)
    show "cleanupSessions clk st =
           (\<lparr>sm_status = 200,
             sm_payload = CleanupJson (length (filter (\<lambda>kv. exceeds (clk (ticks st)) (snd kv)) (storage st)))
                                      (length (filter (\<lambda>kv. \<not> exceeds (clk (ticks st)) (snd kv)) (storage st)))\<rparr>,
            \<lparr>storage = filter (\<lambda>kv. \<not> exceeds (clk (ticks st)) (snd kv)) (storage st),
             ticks = Suc (ticks st)\<rparr>)"
      by (rule cleanup_result [OF assms])
  next
    assume "\<forall>kv \<in> set (storage st1). \<not> exceeds (clk (Suc (ticks st))) (snd kv)"
    then show "cleanupSessions clk st1 =
                (\<lparr>sm_status = 200, sm_payload = CleanupJson 0 (length (storage st1))\<rparr>,
                 \<lparr>storage = storage st1, ticks = Suc (Suc (ticks st))\<rparr>)"
      unfolding st1(2) by (rule noop)
  next
    assume "clk (Suc (ticks st)) \<le> clk (ticks st)"
    then show "\<forall>kv \<in> set (storage st1). \<not> exceeds (clk (Suc (ticks st))) (snd kv)"
      unfolding st1(2) by (rule mono)
  qed
qed

theorem C9_witness:
  "distinct (map fst (storage \<lparr>storage = [(''old'', session_at ''old'' 0), (''new'', session_at ''new'' 90000000)], ticks = 0\<rparr>)) \<and>
   cleanupSessions (frozen_clock 100000000)
       \<lparr>storage = [(''old'', session_at ''old'' 0), (''new'', session_at ''new'' 90000000)], ticks = 0\<rparr> =
     (\<lparr>sm_status = 200, sm_payload = CleanupJson 1 1\<rparr>,
      \<lparr>storage = [(''new'', session_at ''new'' 90000000)], ticks = 1\<rparr>) \<and>
   cleanupSessions (frozen_clock 100000000)
       \<lparr>storage = [(''new'', session_at ''new'' 90000000)], ticks = 1\<rparr> =
     (\<lparr>sm_status = 200, sm_payload = CleanupJson 0 1\<rparr>,
      \<lparr>storage = [(''new'', session_at ''new'' 90000000)], ticks = 2\<rparr>)"
proof -
  let ?st = "\<lparr>storage = [(''old'', session_at ''old'' 0), (''new'', session_at ''new'' 90000000)], ticks = 0\<rparr>"
  have d: "distinct (map fst (storage ?st))" by simp
  note t = C9_sweep_removes_the_expired_and_repeats_as_a_no_op [OF d, of "frozen_clock 100000000"]
  have first: "cleanupSessions (frozen_clock 100000000) ?st =
     (\<lparr>sm_status = 200, sm_payload = CleanupJson 1 1\<rparr>,
      \<lparr>storage = [(''new'', session_at ''new'' 90000000)], ticks = 1\<rparr>)"
    using t [THEN conjunct1]
    by (simp add: exceeds_def frozen_clock_def lastActivity_session_at)
  have quiet: "\<forall>kv \<in> set (storage (snd (cleanupSessions (frozen_clock 100000000) ?st))).
                 \<not> exceeds (frozen_clock 100000000 (Suc (ticks ?st))) (snd kv)"
    unfolding first by (simp add: exceeds_def frozen_clock_def lastActivity_session_at)
  have second: "cleanupSessions (frozen_clock 100000000)
       \<lparr>storage = [(''new'', session_at ''new'' 90000000)], ticks = 1\<rparr> =
     (\<lparr>sm_status = 200, sm_payload = CleanupJson 0 1\<rparr>,
      \<lparr>storage = [(''new'', session_at ''new'' 90000000)], ticks = 2\<rparr>)"
    using t [THEN conjunct2, THEN conjunct1, THEN mp, OF quiet]
    unfolding first by simp
  show ?thesis
    by (intro conjI, rule d, rule first, rule second)
qed

text \<open>
  A session exactly 24 hours old survives the first sweep and is removed by a second one
  a millisecond later.
\<close>

theorem C9_second_sweep_counterexample:
  "cleanupSessions (ticking_clock 86400000) \<lparr>storage = [(''s1'', session_at ''s1'' 0)], ticks = 0\<rparr>
     = (\<lparr>sm_status = 200, sm_payload = CleanupJson 0 1\<rparr>,
        \<lparr>storage = [(''s1'', session_at ''s1'' 0)], ticks = 1\<rparr>) \<and>
   cleanupSessions (ticking_clock 86400000) \<lparr>storage = [(''s1'', session_at ''s1'' 0)], ticks = 1\<rparr>
     = (\<lparr>sm_status = 200, sm_payload = CleanupJson 1 0\<rparr>, \<lparr>storage = [], ticks = 2\<rparr>)"
  by (simp add: cleanupSessions_def Date_now_def ticking_clock_def session_at_def storage_delete_def)

text \<open>
  C10. A POST whose body is valid JSON but not an object gets the Parse error only when
  the body is \<open>null\<close>, where reading \<open>body.id\<close> throws. For every other such body (a
  boolean, a number, a string, an array) \<open>body.id\<close> is \<open>undefined\<close> and the answer is
  Invalid Request with id \<open>null\<close>. Both come at status 400, before any dispatch.
\<close>

theorem C10_only_null_is_a_parse_error:
  assumes "json_body request = Inr b" and "\<forall>kvs. b \<noteq> JObject kvs"
  shows "handlePost h request sessionId =
           (\<lparr>status = 400,
             headers = addCorsHeaders [(''Content-Type'', ''application/json''),
                                       (''Mcp-Session-Id'', sessionId)],
             resp_body = JsonBody \<lparr>jsonrpc = ''2.0'', result = None,
                                    error = Some (if b = JNull
                                                  then \<lparr>code = - 32700, message = ''Parse error'',
                                                        data = None\<rparr>
                                                  else \<lparr>code = - 32600, message = ''Invalid Request'',
                                                        data = None\<rparr>),
                                    id' = JNull\<rparr>\<rparr>, 0)"
  using assms
  by (cases b)
     (simp_all add: handlePost_def Let_def isValidJsonRpc_def or_null_def createErrorResponse_def
        invalid_request_def parse_error_def)

theorem C10_witness:
  "json_body (post None (Inr JNull)) = Inr JNull \<and> (\<forall>kvs. JNull \<noteq> JObject kvs) \<and>
   handlePost working_backend (post None (Inr JNull)) ''session-1'' =
     (\<lparr>status = 400,
       headers = addCorsHeaders [(''Content-Type'', ''application/json''),
                                 (''Mcp-Session-Id'', ''session-1'')],
       resp_body = JsonBody \<lparr>jsonrpc = ''2.0'', result = None,
                              error = Some \<lparr>code = - 32700, message = ''Parse error'', data = None\<rparr>,
                              id' = JNull\<rparr>\<rparr>, 0) \<and>
   json_body (post None (Inr (JNumber 0))) = Inr (JNumber 0) \<and> (\<forall>kvs. JNumber 0 \<noteq> JObject kvs) \<and>
   handlePost working_backend (post None (Inr (JNumber 0))) ''session-1'' =
     (\<lparr>status = 400,
       headers = addCorsHeaders [(''Content-Type'', ''application/json''),
                                 (''Mcp-Session-Id'', ''session-1'')],
       resp_body = JsonBody \<lparr>jsonrpc = ''2.0'', result = None,
                              error = Some \<lparr>code = - 32600, message = ''Invalid Request'',
                                            data = None\<rparr>,
                              id' = JNull\<rparr>\<rparr>, 0)"
  using C10_only_null_is_a_parse_error [of "post None (Inr JNull)" JNull working_backend "''session-1''"]
        C10_only_null_is_a_parse_error [of "post None (Inr (JNumber 0))" "JNumber 0" working_backend "''session-1''"]
  by (simp add: post_def)

text \<open>
  The body \<open>false\<close> is answered with Invalid Request.
\<close>

theorem C10_false_body_counterexample:
  "handlePost working_backend (post (Some ''application/json'') (Inr (JBool False))) ''session-1'' =
   (\<lparr>status = 400,
     headers = addCorsHeaders [(''Content-Type'', ''application/json''),
                               (''Mcp-Session-Id'', ''session-1'')],
     resp_body = JsonBody \<lparr>jsonrpc = ''2.0'', result = None,
                            error = Some \<lparr>code = - 32600, message = ''Invalid Request'',
                                          data = None\<rparr>,
                            id' = JNull\<rparr>\<rparr>, 0) \<and>
   (- 32600 :: int) \<noteq> - 32700"
  by (simp add: handlePost_def post_def isValidJsonRpc_def or_null_def createErrorResponse_def
        invalid_request_def)

end
